theory Spec2Isabelle
  imports Complex_Main "HOL-Library.Word"
begin

unbundle bit_operations_syntax

section \<open>Images\<close>

text \<open>
  An image is a rectangular grid of 8-bit pixels, as in PIL: its size and its rows of
  pixels, top to bottom, each row left to right. The editor works on mode RGB (three
  bands), the animation export on mode RGBA (four bands).

  Python floats are modelled by exact reals throughout: \<open>slider / 100.0\<close> is the real
  number \<open>slider / 100\<close>. Where a result depends on the rounding of binary floating
  point, the model is the exact value.
\<close>

type_synonym byte = "8 word"
type_synonym rgb = "byte \<times> byte \<times> byte"
type_synonym rgba = "byte \<times> byte \<times> byte \<times> byte"

record 'p image =
  width :: nat
  height :: nat
  rows :: "'p list list"

datatype error = ValueError | ZeroDivisionError | TypeError

definition wf_image :: "'p image \<Rightarrow> bool" where
  "wf_image im = (length (rows im) = height im \<and> list_all (\<lambda>r. length r = width im) (rows im))"

definition map_image :: "('p \<Rightarrow> 'q) \<Rightarrow> 'p image \<Rightarrow> 'q image" where
  "map_image f im = \<lparr>width = width im, height = height im, rows = map (map f) (rows im)\<rparr>"

definition map_bands :: "(byte \<Rightarrow> byte) \<Rightarrow> rgb \<Rightarrow> rgb" where
  "map_bands f p = (case p of (r, g, b) \<Rightarrow> (f r, f g, f b))"

text \<open>\<open>CLIP8\<close> of PIL's C core: an integer saturated into \<open>0..255\<close>.\<close>

definition clip8 :: "int \<Rightarrow> byte" where
  "clip8 i = (if i \<le> 0 then 0 else if i \<ge> 255 then 255 else word_of_int i)"

section \<open>\<open>Image.blend\<close>\<close>

text \<open>
  \<open>Image.blend(im1, im2, alpha)\<close>: images of different size do not match
  (\<open>ValueError\<close>); alpha 0.0 returns a copy of the first image and alpha 1.0 a copy
  of the second; otherwise every band is \<open>in1 + alpha * (in2 - in1)\<close>, cut to
  \<open>[0, 255]\<close> and truncated to a byte.
\<close>

definition blend_band :: "real \<Rightarrow> byte \<Rightarrow> byte \<Rightarrow> byte" where
  "blend_band alpha in1 in2 =
     (let temp = real (unat in1) + alpha * (real (unat in2) - real (unat in1))
      in if temp \<le> 0 then 0 else if temp \<ge> 255 then 255 else word_of_int \<lfloor>temp\<rfloor>)"

definition blend_rgb :: "real \<Rightarrow> rgb \<Rightarrow> rgb \<Rightarrow> rgb" where
  "blend_rgb alpha p q =
     (case p of (r1, g1, b1) \<Rightarrow> case q of (r2, g2, b2) \<Rightarrow>
        (blend_band alpha r1 r2, blend_band alpha g1 g2, blend_band alpha b1 b2))"


definition blend_with ::
  "(real \<Rightarrow> 'p \<Rightarrow> 'p \<Rightarrow> 'p) \<Rightarrow> 'p image \<Rightarrow> 'p image \<Rightarrow> real \<Rightarrow> error + 'p image" where
  "blend_with bp im1 im2 alpha =
     (if width im1 = width im2 \<and> height im1 = height im2 then
        (if alpha = 0 then Inr im1
         else if alpha = 1 then Inr im2
         else Inr \<lparr>width = width im1, height = height im1,
                   rows = map2 (map2 (bp alpha)) (rows im1) (rows im2)\<rparr>)
      else Inl ValueError)"

definition Image_blend :: "rgb image \<Rightarrow> rgb image \<Rightarrow> real \<Rightarrow> error + rgb image" where
  "Image_blend = blend_with blend_rgb"


section \<open>The editor's widgets\<close>

text \<open>
  The state of the workspace page that the adjustment pipeline reads:
  \<open>baseline_image\<close> is the original photo, \<open>original_image\<close> the image of the selected
  style (the names are the source's), \<open>sliders\<close> and \<open>filters_enabled\<close> are the
  dictionaries of slider values and check boxes by label, \<open>tint_color\<close> is the
  attribute set by \<open>set_tint_color\<close> (absent until it is first set) and
  \<open>frame_dropdown\<close> the current text of the frame selector.
\<close>

record workspace =
  baseline_image :: "rgb image"
  original_image :: "rgb image"
  sliders :: "string \<Rightarrow> int"
  filters_enabled :: "string \<Rightarrow> bool"
  tint_color :: "rgb option"
  frame_dropdown :: string

text \<open>The blending step of \<open>apply_all_adjustments\<close>.\<close>

definition blended_image :: "workspace \<Rightarrow> error + rgb image" where
  "blended_image st =
     (let original_image' = baseline_image st;
          styled_image = original_image st;
          blend_value = real_of_int (sliders st ''Transition'') / 100
      in Image_blend original_image' styled_image blend_value)"

section \<open>The animation export: transition frames\<close>

text \<open>
  The frame loop of \<open>export_animation_gif\<close> and \<open>export_animation_video\<close> in mode
  \<open>Transition\<close>: \<open>for i in range(101)\<close>, frame \<open>i\<close> is
  \<open>Image.blend(original_image, styled_image, i / 100.0)\<close>. The first failing blend
  ends the loop with its error.
\<close>

fun collect :: "(error + 'a) list \<Rightarrow> error + 'a list" where
  "collect [] = Inr []"
| "collect (x # xs) =
     (case x of Inl e \<Rightarrow> Inl e
      | Inr v \<Rightarrow> (case collect xs of Inl e \<Rightarrow> Inl e | Inr vs \<Rightarrow> Inr (v # vs)))"



section \<open>The animation export: before/after frames\<close>

text \<open>
  \<open>im.crop((left, upper, right, lower))\<close>: a box whose right edge is left of its left edge
  (or its lower edge above its upper edge) is refused; the part of the box outside the
  image is filled with zero bytes. \<open>canvas.paste(im, (x0, y0))\<close> overwrites the canvas
  where the pasted image lies and is clipped to the canvas.
\<close>

definition px :: "'p image \<Rightarrow> nat \<Rightarrow> nat \<Rightarrow> 'p" where
  "px im x y = rows im ! y ! x"

definition crop_with :: "'p \<Rightarrow> 'p image \<Rightarrow> int \<times> int \<times> int \<times> int \<Rightarrow> error + 'p image" where
  "crop_with zero im box =
     (case box of (left, upper, right, lower) \<Rightarrow>
        if right < left \<or> lower < upper then Inl ValueError
        else Inr \<lparr>width = nat (right - left), height = nat (lower - upper),
                  rows = map (\<lambda>y. map (\<lambda>x.
                      let sx = left + int x; sy = upper + int y
                      in if 0 \<le> sx \<and> sx < int (width im) \<and> 0 \<le> sy \<and> sy < int (height im)
                         then px im (nat sx) (nat sy) else zero)
                    [0..<nat (right - left)]) [0..<nat (lower - upper)]\<rparr>)"

definition paste :: "'p image \<Rightarrow> 'p image \<Rightarrow> int \<times> int \<Rightarrow> 'p image" where
  "paste canvas im pos =
     (case pos of (x0, y0) \<Rightarrow>
        \<lparr>width = width canvas, height = height canvas,
         rows = map (\<lambda>y. map (\<lambda>x.
             let sx = int x - x0; sy = int y - y0
             in if 0 \<le> sx \<and> sx < int (width im) \<and> 0 \<le> sy \<and> sy < int (height im)
                then px im (nat sx) (nat sy) else px canvas x y)
           [0..<width canvas]) [0..<height canvas]\<rparr>)"

text \<open>
  The frame of index \<open>i\<close> in mode \<open>Before/After\<close>, as \<open>export_animation_gif\<close> builds it:
  a copy of the styled image, onto which the part of the original image from the split
  position to the right edge is pasted at the split position.
  \<open>export_animation_video\<close> differs only in taking the width from the original image.
  The split position is \<open>int(width * (i / 100.0))\<close>; for the indices 0, 50 and 100, at
  which it is evaluated below, the quotient is exact in binary floating point too.
\<close>

definition split_position :: "nat \<Rightarrow> nat \<Rightarrow> int" where
  "split_position w i = \<lfloor>real w * (real i / 100)\<rfloor>"

definition before_after_frame :: "rgba image \<Rightarrow> rgba image \<Rightarrow> nat \<Rightarrow> error + rgba image" where
  "before_after_frame original_image' styled_image i =
     (let blended_frame = styled_image;
          w = width styled_image;
          sp = split_position w i
      in case crop_with (0, 0, 0, 0) original_image' (sp, 0, int w, int (height original_image')) of
           Inl e \<Rightarrow> Inl e
         | Inr part \<Rightarrow> Inr (paste blended_frame part (sp, 0)))"

definition before_after_frame_video :: "rgba image \<Rightarrow> rgba image \<Rightarrow> nat \<Rightarrow> error + rgba image" where
  "before_after_frame_video original_image' styled_image i =
     (let w = width original_image'; h = height original_image';
          blended_frame = styled_image;
          sp = split_position w i
      in case crop_with (0, 0, 0, 0) original_image' (sp, 0, int w, int h) of
           Inl e \<Rightarrow> Inl e
         | Inr part \<Rightarrow> Inr (paste blended_frame part (sp, 0)))"

definition before_after_frames :: "rgba image \<Rightarrow> rgba image \<Rightarrow> error + rgba image list" where
  "before_after_frames original_image' styled_image =
     collect (map (before_after_frame original_image' styled_image) [0..<101])"

section \<open>Resetting the controls\<close>

text \<open>
  \<open>initUI\<close> creates the sliders with \<open>add_slider(label, default_value, ...)\<close>:
  Transition 100, Blur 50, Posterize 1, Solarize 0, Noise 5, Tint 30, Paper Texture 0 and
  the eight editing sliders 50.
\<close>

definition slider_labels :: "string list" where
  "slider_labels = [''Transition'', ''Blur'', ''Posterize'', ''Solarize'', ''Noise'', ''Tint'',
     ''Paper Texture'', ''Exposure'', ''Gamma'', ''Brightness'', ''Contrast'', ''Saturation'',
     ''Hue'', ''Temperature'', ''Sharpness'']"

definition filter_labels :: "string list" where
  "filter_labels = [''Sepia'', ''Grayscale'', ''Colorize'', ''Invert'', ''Blur'', ''Posterize'',
     ''Solarize'', ''Noise'', ''Tint'', ''Paper Texture'']"

definition initial_slider_value :: "string \<Rightarrow> int" where
  "initial_slider_value label =
     (if label = ''Transition'' then 100
      else if label = ''Blur'' then 50
      else if label = ''Posterize'' then 1
      else if label = ''Solarize'' then 0
      else if label = ''Noise'' then 5
      else if label = ''Tint'' then 30
      else if label = ''Paper Texture'' then 0
      else 50)"

text \<open>
  The two reset loops of \<open>update_image_display\<close>, run whenever the style selection
  changes: every slider is set by the chain of tests on its key, every check box is
  unchecked.
\<close>

definition reset_slider_value :: "string \<Rightarrow> int" where
  "reset_slider_value key =
     (if key = ''Transition'' then 100
      else if key = ''Posterize'' then 1
      else if key = ''Solarize'' \<or> key = ''Paper Texture'' then 0
      else if key = ''Noise'' then 10
      else if key = ''Tint'' then 30
      else 50)"

text \<open>
  \<open>QSlider.setValue\<close> keeps the value inside the range the slider was created with:
  Posterize 1 to 8, Solarize 0 to 255, Noise and Paper Texture 0 to 50, every other slider
  0 to 100.
\<close>

definition slider_range :: "string \<Rightarrow> int \<times> int" where
  "slider_range label =
     (if label = ''Posterize'' then (1, 8)
      else if label = ''Solarize'' then (0, 255)
      else if label = ''Noise'' then (0, 50)
      else if label = ''Paper Texture'' then (0, 50)
      else (0, 100))"

definition setValue :: "string \<Rightarrow> int \<Rightarrow> int" where
  "setValue label v = (case slider_range label of (lo, hi) \<Rightarrow> max lo (min hi v))"

definition reset_controls :: "workspace \<Rightarrow> workspace" where
  "reset_controls st =
     st\<lparr>sliders := (\<lambda>key. setValue key (reset_slider_value key)),
        filters_enabled := (\<lambda>key. False)\<rparr>"

section \<open>Lookup tables\<close>

text \<open>
  \<open>im.point(table)\<close> maps every band value through a table of 256 entries, each entry
  saturated into a byte. \<open>im.point(f)\<close> for a function \<open>f\<close> builds the table
  \<open>[f(i) for i in range(256)]\<close> first and rounds its entries with Python's \<open>round\<close>
  (to the nearest integer, a tie to the even one).
\<close>

definition py_round :: "real \<Rightarrow> int" where
  "py_round x =
     (let f = \<lfloor>x\<rfloor>; d = x - of_int f
      in if d < 1 / 2 then f else if d > 1 / 2 then f + 1 else if even f then f else f + 1)"

definition lut_band :: "(int \<Rightarrow> int) \<Rightarrow> byte \<Rightarrow> byte" where
  "lut_band table v = clip8 (table (uint v))"

definition point :: "(int \<Rightarrow> real) \<Rightarrow> byte \<Rightarrow> byte" where
  "point f v = lut_band (\<lambda>i. py_round (f i)) v"

definition Image_new :: "nat \<Rightarrow> nat \<Rightarrow> 'p \<Rightarrow> 'p image" where
  "Image_new w h color = \<lparr>width = w, height = h, rows = replicate h (replicate w color)\<rparr>"

section \<open>The colour filters\<close>

text \<open>\<open>image.convert("L")\<close> on an RGB img (the ITU-R 601-2 luma of PIL's C core) and back.\<close>

definition L24 :: "rgb \<Rightarrow> byte" where
  "L24 p = (case p of (r, g, b) \<Rightarrow>
     word_of_nat ((unat r * 19595 + unat g * 38470 + unat b * 7471 + 32768) div 65536))"

definition convert_L :: "rgb image \<Rightarrow> byte image" where
  "convert_L im = map_image L24 im"

definition convert_RGB :: "byte image \<Rightarrow> rgb image" where
  "convert_RGB im = map_image (\<lambda>l. (l, l, l)) im"

text \<open>\<open>ImageOps.invert\<close>: the table \<open>255 - i\<close>.\<close>

definition apply_invert :: "rgb image \<Rightarrow> rgb image" where
  "apply_invert img = map_image (map_bands (lut_band (\<lambda>i. 255 - i))) img"

definition apply_grayscale :: "rgb image \<Rightarrow> rgb image" where
  "apply_grayscale img = convert_RGB (convert_L img)"

text \<open>
  \<open>ImageOps.solarize(image, threshold)\<close>: the table with entry \<open>i\<close> for
  \<open>i < threshold\<close> and \<open>255 - i\<close> otherwise.
\<close>

definition solarize_lut :: "int \<Rightarrow> int \<Rightarrow> int" where
  "solarize_lut threshold i = (if i < threshold then i else 255 - i)"

definition apply_solarize :: "rgb image \<Rightarrow> int \<Rightarrow> rgb image" where
  "apply_solarize img threshold = map_image (map_bands (lut_band (solarize_lut threshold))) img"

definition sepia_pixel :: "rgb \<Rightarrow> rgb" where
  "sepia_pixel p = (case p of (r', g', b') \<Rightarrow>
     let r = real (unat r'); g = real (unat g'); b = real (unat b');
         tr = \<lfloor>0.393 * r + 0.769 * g + 0.189 * b\<rfloor>;
         tg = \<lfloor>0.349 * r + 0.686 * g + 0.168 * b\<rfloor>;
         tb = \<lfloor>0.272 * r + 0.534 * g + 0.131 * b\<rfloor>
     in (word_of_int (min tr 255), word_of_int (min tg 255), word_of_int (min tb 255)))"

definition apply_sepia :: "rgb image \<Rightarrow> rgb image" where
  "apply_sepia img = map_image sepia_pixel img"

text \<open>
  \<open>ImageOps.colorize(grayscale, black="blue", white="yellow")\<close>: per band, the ramp
  \<open>black + i * (white - black) // 255\<close> for \<open>i < 255\<close> and \<open>white\<close> at 255.
\<close>

definition colorize_lut :: "int \<Rightarrow> int \<Rightarrow> int \<Rightarrow> int" where
  "colorize_lut black white i = (if i < 255 then black + i * (white - black) div 255 else white)"

definition apply_colorize :: "rgb image \<Rightarrow> rgb image" where
  "apply_colorize img =
     map_image (\<lambda>l. (lut_band (colorize_lut 0 255) l, lut_band (colorize_lut 0 255) l,
                      lut_band (colorize_lut 255 0) l)) (convert_L img)"

text \<open>
  \<open>ImageOps.posterize(image, bits)\<close>: the table \<open>i & ~(2 ** (8 - bits) - 1)\<close>. For
  \<open>bits > 8\<close> the power is a float, which \<open>~\<close> refuses.
\<close>

definition apply_posterize :: "rgb image \<Rightarrow> int \<Rightarrow> error + rgb image" where
  "apply_posterize img bits =
     (if bits > 8 then Inl TypeError
      else let mask = NOT (2 ^ nat (8 - bits) - 1)
           in Inr (map_image (map_bands (lut_band (\<lambda>i. i AND mask))) img))"

text \<open>
  The global random generator of NumPy is hidden state of the program. It is modelled by
  the stream of standard normal variates it is about to return: \<open>normal loc scale n\<close>
  takes the next \<open>n\<close> of them, scaled and shifted, and leaves the rest of the stream.
\<close>

type_synonym rng = "nat \<Rightarrow> real"

definition normal :: "real \<Rightarrow> real \<Rightarrow> nat \<Rightarrow> rng \<Rightarrow> (nat \<Rightarrow> real) \<times> rng" where
  "normal loc scale n g = ((\<lambda>k. loc + scale * g k), (\<lambda>k. g (k + n)))"

text \<open>The conversion of a float to an integer type truncates towards zero.\<close>

definition truncate :: "real \<Rightarrow> int" where
  "truncate x = (if x \<ge> 0 then \<lfloor>x\<rfloor> else \<lceil>x\<rceil>)"

text \<open>
  \<open>apply_noise\<close>: the array of the image has shape (height, width, 3); the noise of
  the same shape is truncated to 16-bit integers (no draw is large enough to leave
  their range), added, and the sum clipped to \<open>0..255\<close>.
\<close>

definition apply_noise :: "rgb image \<Rightarrow> real \<Rightarrow> rng \<Rightarrow> rgb image \<times> rng" where
  "apply_noise img intensity g =
     (let w = width img; h = height img;
          (sample, g') = normal 0 (intensity * 255) (h * w * 3) g;
          noise = (\<lambda>k. truncate (sample k));
          noisy = (\<lambda>k v. clip8 (uint v + noise k))
      in (\<lparr>width = w, height = h,
           rows = map (\<lambda>y. map (\<lambda>x.
               case px img x y of (r, gr, b) \<Rightarrow>
                 (noisy ((y * w + x) * 3) r, noisy ((y * w + x) * 3 + 1) gr,
                  noisy ((y * w + x) * 3 + 2) b))
             [0..<w]) [0..<h]\<rparr>, g'))"

text \<open>
  \<open>apply_tint\<close>: the tint colour is the attribute \<open>tint_color\<close>, or pink
  (\<open>#FF69B4\<close>) when it was never set.
\<close>

definition apply_tint :: "workspace \<Rightarrow> rgb image \<Rightarrow> real \<Rightarrow> error + rgb image" where
  "apply_tint st img alpha =
     (let tint = (case tint_color st of Some c \<Rightarrow> c | None \<Rightarrow> (255, 105, 180));
          overlay = Image_new (width img) (height img) tint
      in Image_blend img overlay alpha)"

section \<open>The editing sliders\<close>

text \<open>
  \<open>ImageEnhance.X(image).enhance(factor)\<close> is
  \<open>Image.blend(degenerate, image, factor)\<close>. The degenerate image of \<open>Brightness\<close> is
  black; of \<open>Contrast\<close> uniformly the rounded mean of the luma (the mean of an image
  without pixels divides by zero); of \<open>Color\<close> the grayscale image; of \<open>Sharpness\<close>
  the image smoothed by \<open>ImageFilter.SMOOTH\<close>.
\<close>

definition Brightness_enhance :: "rgb image \<Rightarrow> real \<Rightarrow> error + rgb image" where
  "Brightness_enhance img factor =
     Image_blend (Image_new (width img) (height img) (0, 0, 0)) img factor"

definition ImageStat_mean :: "byte image \<Rightarrow> error + real" where
  "ImageStat_mean im =
     (let vs = concat (rows im)
      in if length vs = 0 then Inl ZeroDivisionError
         else Inr (real (sum_list (map unat vs)) / real (length vs)))"

definition Contrast_enhance :: "rgb image \<Rightarrow> real \<Rightarrow> error + rgb image" where
  "Contrast_enhance img factor =
     (case ImageStat_mean (convert_L img) of
        Inl e \<Rightarrow> Inl e
      | Inr m \<Rightarrow>
          let mean = \<lfloor>m + 0.5\<rfloor>
          in Image_blend (convert_RGB (Image_new (width img) (height img) (word_of_int mean)))
               img factor)"

definition Color_enhance :: "rgb image \<Rightarrow> real \<Rightarrow> error + rgb image" where
  "Color_enhance img factor = Image_blend (convert_RGB (convert_L img)) img factor"

text \<open>
  \<open>ImageFilter.SMOOTH\<close> is the 3 by 3 kernel \<open>1 1 1 / 1 5 1 / 1 1 1\<close> with scale 13.
  The kernel filter of PIL copies the pixels of the first and last row and column, and
  sets every other band value to the weighted sum plus one half, saturated and truncated.
\<close>

definition clip8f :: "real \<Rightarrow> byte" where
  "clip8f x = (if x \<le> 0 then 0 else if x \<ge> 255 then 255 else word_of_int \<lfloor>x\<rfloor>)"

definition smooth_band :: "rgb image \<Rightarrow> (rgb \<Rightarrow> byte) \<Rightarrow> nat \<Rightarrow> nat \<Rightarrow> byte" where
  "smooth_band im band x y =
     (let v = (\<lambda>dx dy. real (unat (band (px im (x + dx - 1) (y + dy - 1)))))
      in clip8f (0.5 + (v 0 0 + v 1 0 + v 2 0 + v 0 1 + 5 * v 1 1 + v 2 1 + v 0 2 + v 1 2 + v 2 2) / 13))"

definition filter_SMOOTH :: "rgb image \<Rightarrow> rgb image" where
  "filter_SMOOTH im =
     \<lparr>width = width im, height = height im,
      rows = map (\<lambda>y. map (\<lambda>x.
          if 0 < x \<and> x + 1 < width im \<and> 0 < y \<and> y + 1 < height im
          then (smooth_band im fst x y, smooth_band im (\<lambda>p. fst (snd p)) x y,
                smooth_band im (\<lambda>p. snd (snd p)) x y)
          else px im x y)
        [0..<width im]) [0..<height im]\<rparr>"

definition Sharpness_enhance :: "rgb image \<Rightarrow> real \<Rightarrow> error + rgb image" where
  "Sharpness_enhance img factor = Image_blend (filter_SMOOTH img) img factor"

text \<open>
  Python's \<open>x ** y\<close> on floats: anything to the power 0 is 1; zero to a negative power
  divides by zero; a negative base with a fractional exponent leaves the reals.
\<close>

definition float_pow :: "real \<Rightarrow> real \<Rightarrow> error + real" where
  "float_pow x y =
     (if y = 0 then Inr 1
      else if x = 0 then (if y < 0 then Inl ZeroDivisionError else Inr 0)
      else if x > 0 then Inr (x powr y)
      else if y = of_int \<lfloor>y\<rfloor> then Inr ((if even \<lfloor>y\<rfloor> then 1 else - 1) * (\<bar>x\<bar> powr y))
      else Inl TypeError)"

text \<open>Python's \<open>a / b\<close> on floats raises on a zero divisor.\<close>

definition float_div :: "real \<Rightarrow> real \<Rightarrow> error + real" where
  "float_div a b = (if b = 0 then Inl ZeroDivisionError else Inr (a / b))"

text \<open>
  The stages of the \<open>EDITING\<close> part of \<open>apply_all_adjustments\<close>, each a function of its
  slider value and the image so far.
\<close>

definition exposure_stage :: "int \<Rightarrow> rgb image \<Rightarrow> error + rgb image" where
  "exposure_stage slider img =
     (let exposure_value = real_of_int slider / 50 in Brightness_enhance img exposure_value)"

definition gamma_stage :: "int \<Rightarrow> rgb image \<Rightarrow> error + rgb image" where
  "gamma_stage slider img =
     (let gamma_value = max 0.1 (real_of_int slider / 50)
      in case float_div 1 gamma_value of
           Inl e \<Rightarrow> Inl e
         | Inr inv_gamma \<Rightarrow>
             (case collect (map (\<lambda>p. float_pow (real p / 255) inv_gamma) [0..<256]) of
                Inl e \<Rightarrow> Inl e
              | Inr powers \<Rightarrow>
                  Inr (map_image (map_bands (point (\<lambda>p. 255 * powers ! nat p))) img)))"

definition brightness_stage :: "int \<Rightarrow> rgb image \<Rightarrow> error + rgb image" where
  "brightness_stage slider img =
     (let brightness_value = real_of_int slider / 50 in Brightness_enhance img brightness_value)"

definition contrast_stage :: "int \<Rightarrow> rgb image \<Rightarrow> error + rgb image" where
  "contrast_stage slider img =
     (let contrast_value = real_of_int slider / 50 in Contrast_enhance img contrast_value)"

definition saturation_stage :: "int \<Rightarrow> rgb image \<Rightarrow> error + rgb image" where
  "saturation_stage slider img =
     (let saturation_value = real_of_int slider / 50 in Color_enhance img saturation_value)"

text \<open>
  The conversions between RGB and HSV of PIL's C core, on bytes: hue, saturation and
  value are each stored in 8 bits.
\<close>

definition rgb2hsv :: "rgb \<Rightarrow> rgb" where
  "rgb2hsv p = (case p of (r, g, b) \<Rightarrow>
     let maxc = max r (max g b); minc = min r (min g b)
     in if minc = maxc then (0, 0, maxc)
        else
          let cr = real (unat maxc) - real (unat minc);
              s = cr / real (unat maxc);
              rc = (real (unat maxc) - real (unat r)) / cr;
              gc = (real (unat maxc) - real (unat g)) / cr;
              bc = (real (unat maxc) - real (unat b)) / cr;
              h = (if r = maxc then bc - gc
                   else if g = maxc then 2 + rc - bc
                   else 4 + gc - rc);
              h' = frac (h / 6 + 1)
          in (clip8 \<lfloor>h' * 255\<rfloor>, clip8 \<lfloor>s * 255\<rfloor>, maxc))"

definition c_round :: "real \<Rightarrow> int" where
  "c_round x = (if x \<ge> 0 then \<lfloor>x + 1 / 2\<rfloor> else \<lceil>x - 1 / 2\<rceil>)"

definition hsv2rgb :: "rgb \<Rightarrow> rgb" where
  "hsv2rgb p = (case p of (h, s, v) \<Rightarrow>
     if s = 0 then (v, v, v)
     else
       let i = \<lfloor>real (unat h) * 6 / 255\<rfloor>;
           f = real (unat h) * 6 / 255 - of_int i;
           fs = real (unat s) / 255;
           up = clip8 (c_round (real (unat v) * (1 - fs)));
           uq = clip8 (c_round (real (unat v) * (1 - fs * f)));
           ut = clip8 (c_round (real (unat v) * (1 - fs * (1 - f))));
           k = i mod 6
       in if k = 0 then (v, ut, up)
          else if k = 1 then (uq, v, up)
          else if k = 2 then (up, v, ut)
          else if k = 3 then (up, uq, v)
          else if k = 4 then (ut, up, v)
          else (v, up, uq))"

text \<open>Python's \<open>x % m\<close> on floats with a positive modulus.\<close>

definition float_mod :: "real \<Rightarrow> real \<Rightarrow> real" where
  "float_mod x m = x - m * of_int \<lfloor>x / m\<rfloor>"

definition hue_stage :: "int \<Rightarrow> rgb image \<Rightarrow> rgb image" where
  "hue_stage slider img =
     (let hue_shift = real_of_int (slider - 50) * 3.6
      in map_image (\<lambda>p. case rgb2hsv p of (h, s, v) \<Rightarrow>
           hsv2rgb (point (\<lambda>p. float_mod (of_int p + hue_shift) 256) h, s, v)) img)"

definition temperature_stage :: "int \<Rightarrow> rgb image \<Rightarrow> rgb image" where
  "temperature_stage slider img =
     (let temperature_shift = slider - 50
      in map_image (\<lambda>p. case p of (r, g, b) \<Rightarrow>
           if temperature_shift > 0
           then (point (\<lambda>p. of_int (min 255 (p + temperature_shift))) r, g, b)
           else (r, g, point (\<lambda>p. of_int (min 255 (p - temperature_shift))) b)) img)"

definition sharpness_stage :: "int \<Rightarrow> rgb image \<Rightarrow> error + rgb image" where
  "sharpness_stage slider img =
     (let sharpness_value = real_of_int slider / 10 + 1 in Sharpness_enhance img sharpness_value)"

text \<open>The chain of the eight stages, in the order of the source.\<close>

definition bind :: "error + 'a \<Rightarrow> ('a \<Rightarrow> error + 'b) \<Rightarrow> error + 'b" where
  "bind m f = (case m of Inl e \<Rightarrow> Inl e | Inr v \<Rightarrow> f v)"

definition editing :: "(string \<Rightarrow> int) \<Rightarrow> rgb image \<Rightarrow> error + rgb image" where
  "editing sl img =
     bind (exposure_stage (sl ''Exposure'') img) (\<lambda>img.
     bind (gamma_stage (sl ''Gamma'') img) (\<lambda>img.
     bind (brightness_stage (sl ''Brightness'') img) (\<lambda>img.
     bind (contrast_stage (sl ''Contrast'') img) (\<lambda>img.
     bind (saturation_stage (sl ''Saturation'') img) (\<lambda>img.
     sharpness_stage (sl ''Sharpness'')
       (temperature_stage (sl ''Temperature'') (hue_stage (sl ''Hue'') img)))))))"

section \<open>Paper texture and frames\<close>

text \<open>
  \<open>ImageFilter.GaussianBlur\<close> is not part of the program: the pipeline takes it as the
  parameter \<open>gauss\<close>, a function of the radius and the image.

  \<open>generate_paper_texture\<close>: normal variates around 127, converted to bytes (the
  conversion truncates and keeps the low 8 bits), blurred with radius 1.
\<close>

definition generate_paper_texture ::
  "(real \<Rightarrow> rgb image \<Rightarrow> rgb image) \<Rightarrow> nat \<times> nat \<Rightarrow> real \<Rightarrow> rng \<Rightarrow> rgb image \<times> rng" where
  "generate_paper_texture gauss size' intensity g =
     (case size' of (w, h) \<Rightarrow>
        let (sample, g') = normal 127 (127 * intensity) (h * w * 3) g;
            texture = (\<lambda>k. word_of_int (truncate (sample k)) :: byte);
            texture_image = \<lparr>width = w, height = h,
              rows = map (\<lambda>y. map (\<lambda>x.
                  (texture ((y * w + x) * 3), texture ((y * w + x) * 3 + 1),
                   texture ((y * w + x) * 3 + 2)))
                [0..<w]) [0..<h]\<rparr>
        in (gauss 1 texture_image, g'))"

text \<open>
  The colour names and codes that \<open>apply_basic_frame\<close> passes to \<open>Image.new\<close>; any
  other string of this model is refused, as PIL refuses an unknown colour specifier.
\<close>

definition getrgb :: "string \<Rightarrow> error + rgb" where
  "getrgb color =
     (if color = ''black'' then Inr (0, 0, 0)
      else if color = ''white'' then Inr (255, 255, 255)
      else if color = ''#C0C0C0'' then Inr (192, 192, 192)
      else if color = ''#FFD700'' then Inr (255, 215, 0)
      else Inl ValueError)"

definition Image_new_color :: "int \<times> int \<Rightarrow> string \<Rightarrow> error + rgb image" where
  "Image_new_color size' color =
     (case size' of (w, h) \<Rightarrow>
        if w < 0 \<or> h < 0 then Inl ValueError
        else (case getrgb color of
                Inl e \<Rightarrow> Inl e
              | Inr c \<Rightarrow> Inr (Image_new (nat w) (nat h) c)))"

definition apply_basic_frame ::
  "rgb image \<Rightarrow> string \<Rightarrow> int \<Rightarrow> int \<times> int \<Rightarrow> error + rgb image" where
  "apply_basic_frame img frame_color frame_width canvas_size =
     (let frame_color' =
            (if frame_color = ''Black'' then ''black''
             else if frame_color = ''White'' then ''white''
             else if frame_color = ''Metallic'' then ''#C0C0C0''
             else if frame_color = ''Gold'' then ''#FFD700''
             else frame_color);
          inner_width = fst canvas_size - 2 * frame_width;
          inner_height = snd canvas_size - 2 * frame_width;
          top = (int (height img) - inner_height) div 2;
          left = (int (width img) - inner_width) div 2;
          right = left + inner_width;
          bottom = top + inner_height
      in case crop_with (0, 0, 0) img (left, top, right, bottom) of
           Inl e \<Rightarrow> Inl e
         | Inr cropped_image \<Rightarrow>
             (case Image_new_color canvas_size frame_color' of
                Inl e \<Rightarrow> Inl e
              | Inr framed_image \<Rightarrow>
                  Inr (paste framed_image cropped_image (frame_width, frame_width))))"

text \<open>\<open>apply_frame\<close> calls it with the default frame width 20 and canvas 800 by 800.\<close>

definition apply_frame :: "workspace \<Rightarrow> rgb image \<Rightarrow> error + rgb image" where
  "apply_frame st img =
     (let frame_style = frame_dropdown st
      in if frame_style \<in> set [''Black'', ''White'', ''Gold'', ''Metallic'']
         then apply_basic_frame img frame_style 20 (800, 800)
         else Inr img)"

section \<open>The adjustment pipeline\<close>

text \<open>
  \<open>apply_all_adjustments\<close>, up to the image it saves and displays: the blend, the
  colour filters whose check box is set, the editing sliders, the paper texture and the
  frame. It reads the random generator and leaves it advanced.
\<close>

definition filters ::
  "(real \<Rightarrow> rgb image \<Rightarrow> rgb image) \<Rightarrow> workspace \<Rightarrow> rgb image \<Rightarrow> rng \<Rightarrow> error + (rgb image \<times> rng)" where
  "filters gauss st img0 g =
     (let on = filters_enabled st; sl = sliders st;
          img1 = (if on ''Invert'' then apply_invert img0 else img0);
          img2 = (if on ''Grayscale'' then apply_grayscale img1 else img1);
          img3 = (if on ''Solarize'' then apply_solarize img2 (sl ''Solarize'') else img2);
          img4 = (if on ''Sepia'' then apply_sepia img3 else img3);
          img5 = (if on ''Colorize'' then apply_colorize img4 else img4)
      in bind (if on ''Posterize'' then apply_posterize img5 (sl ''Posterize'') else Inr img5)
           (\<lambda>img6.
             let (img7, g') =
                   (if on ''Noise''
                    then apply_noise img6 (real_of_int (sl ''Noise'') / 100) g
                    else (img6, g))
             in bind (if on ''Tint''
                      then apply_tint st img7 (real_of_int (sl ''Tint'') / 100)
                      else Inr img7)
                  (\<lambda>img8.
                    Inr (if on ''Blur''
                         then gauss (real_of_int (sl ''Blur'') / 5) img8
                         else img8, g'))))"

definition paper_texture ::
  "(real \<Rightarrow> rgb image \<Rightarrow> rgb image) \<Rightarrow> workspace \<Rightarrow> rgb image \<Rightarrow> rng \<Rightarrow> error + (rgb image \<times> rng)" where
  "paper_texture gauss st img g =
     (if filters_enabled st ''Paper Texture'' then
        (let paper_texture_intensity = real_of_int (sliders st ''Paper Texture'') / 100
         in if paper_texture_intensity > 0 then
              (let (texture, g') =
                     generate_paper_texture gauss (width img, height img) paper_texture_intensity g
               in bind (Image_blend img texture paper_texture_intensity) (\<lambda>img'. Inr (img', g')))
            else Inr (img, g))
      else Inr (img, g))"

definition apply_all_adjustments ::
  "(real \<Rightarrow> rgb image \<Rightarrow> rgb image) \<Rightarrow> workspace \<Rightarrow> rng \<Rightarrow> error + (rgb image \<times> rng)" where
  "apply_all_adjustments gauss st g =
     bind (blended_image st) (\<lambda>adjusted0.
     bind (filters gauss st adjusted0 g) (\<lambda>(adjusted1, g1).
     bind (editing (sliders st) adjusted1) (\<lambda>adjusted2.
     bind (paper_texture gauss st adjusted2 g1) (\<lambda>(adjusted3, g2).
     bind (apply_frame st adjusted3) (\<lambda>adjusted4. Inr (adjusted4, g2))))))"

section \<open>Concrete inputs\<close>

text \<open>Small images and widget states on which the theorems below are instantiated.\<close>

definition ws1 :: workspace where
  "ws1 = \<lparr>baseline_image = \<lparr>width = 1, height = 1, rows = [[(10, 20, 30)]]\<rparr>,
          original_image = \<lparr>width = 1, height = 1, rows = [[(200, 100, 0)]]\<rparr>,
          sliders = initial_slider_value, filters_enabled = (\<lambda>k. False),
          tint_color = None, frame_dropdown = ''None''\<rparr>"

definition anim_a :: "rgba image" where
  "anim_a = \<lparr>width = 2, height = 1, rows = [[(10, 20, 30, 255), (40, 50, 60, 255)]]\<rparr>"

definition anim_b :: "rgba image" where
  "anim_b = \<lparr>width = 2, height = 1, rows = [[(200, 100, 0, 255), (90, 80, 70, 255)]]\<rparr>"

definition sol_img :: "rgb image" where
  "sol_img = \<lparr>width = 1, height = 1, rows = [[(255, 0, 7)]]\<rparr>"


definition gamma_img :: "rgb image" where
  "gamma_img = \<lparr>width = 1, height = 1, rows = [[(0, 255, 0)]]\<rparr>"

text \<open>
  The colour of the border for each frame name: the name as \<open>apply_basic_frame\<close> maps
  it, read as a colour.
\<close>

definition frame_rgb :: "string \<Rightarrow> rgb" where
  "frame_rgb frame_color =
     (if frame_color = ''Black'' then (0, 0, 0)
      else if frame_color = ''White'' then (255, 255, 255)
      else if frame_color = ''Metallic'' then (192, 192, 192)
      else (255, 215, 0))"

definition one_px :: "rgb image" where
  "one_px = \<lparr>width = 1, height = 1, rows = [[(10, 20, 30)]]\<rparr>"

definition spot :: "rgb image" where
  "spot = \<lparr>width = 3, height = 3,
           rows = [[(0, 0, 0), (0, 0, 0), (0, 0, 0)],
                   [(0, 0, 0), (100, 100, 100), (0, 0, 0)],
                   [(0, 0, 0), (0, 0, 0), (0, 0, 0)]]\<rparr>"

definition spot_sharp :: "rgb image" where
  "spot_sharp = \<lparr>width = 3, height = 3,
           rows = [[(0, 0, 0), (0, 0, 0), (0, 0, 0)],
                   [(0, 0, 0), (255, 255, 255), (0, 0, 0)],
                   [(0, 0, 0), (0, 0, 0), (0, 0, 0)]]\<rparr>"

definition flat :: "byte \<Rightarrow> rgb image" where
  "flat v = \<lparr>width = 3, height = 3,
           rows = [[(v, v, v), (v, v, v), (v, v, v)],
                   [(v, v, v), (v, v, v), (v, v, v)],
                   [(v, v, v), (v, v, v), (v, v, v)]]\<rparr>"

definition ws_noise :: workspace where
  "ws_noise = \<lparr>baseline_image = flat 100, original_image = flat 100,
          sliders = initial_slider_value, filters_enabled = (\<lambda>k. k = ''Noise''),
          tint_color = None, frame_dropdown = ''None''\<rparr>"

section \<open>Facts about blending\<close>

lemma blend_with_0:
  "width a = width b \<Longrightarrow> height a = height b \<Longrightarrow> blend_with bp a b 0 = Inr a"
  by (simp add: blend_with_def)

lemma blend_with_1:
  "width a = width b \<Longrightarrow> height a = height b \<Longrightarrow> blend_with bp a b 1 = Inr b"
  by (simp add: blend_with_def)

lemma blend_with_Inr:
  "width a = width b \<Longrightarrow> height a = height b \<Longrightarrow> \<exists>c. blend_with bp a b alpha = Inr c"
  by (simp add: blend_with_def)

lemma collect_all_Inr:
  "collect (map (\<lambda>i. Inr (f i)) xs) = Inr (map f xs)"
  by (induction xs) simp_all

lemma unat_byte_lt: "unat (v::byte) < 256"
  using unsigned_less [of v, where ?'a = nat] by simp

lemma uint_byte_lt: "uint (v::byte) < 256"
  using uint_bounded [of v] by simp

lemma real_byte_le: "real (unat (v::byte)) \<le> 255"
proof -
  have "unat v \<le> 255" using unat_byte_lt [of v] by simp
  then have "real (unat v) \<le> real 255" by (rule of_nat_mono)
  then show ?thesis by simp
qed

lemma real_byte_ge: "0 \<le> real (unat (v::byte))"
  by (rule of_nat_0_le_iff)

lemma convex_bounds:
  fixes alpha a b :: real
  assumes "0 \<le> alpha" "alpha \<le> 1" "0 \<le> a" "a \<le> 255" "0 \<le> b" "b \<le> 255"
  shows "0 \<le> a + alpha * (b - a)" and "a + alpha * (b - a) \<le> 255"
proof -
  have conv: "a + alpha * (b - a) = (1 - alpha) * a + alpha * b" by (simp add: algebra_simps)
  show "0 \<le> a + alpha * (b - a)" unfolding conv using assms by simp
  have "(1 - alpha) * a \<le> (1 - alpha) * 255"
    using assms by (intro mult_left_mono) simp_all
  moreover have "alpha * b \<le> alpha * 255"
    using assms by (intro mult_left_mono) simp_all
  ultimately have "(1 - alpha) * a + alpha * b \<le> (1 - alpha) * 255 + alpha * 255"
    by (rule add_mono)
  also have "\<dots> = 255" by (simp add: algebra_simps)
  finally show "a + alpha * (b - a) \<le> 255" unfolding conv .
qed

text \<open>
  For a fraction between 0 and 1 the blended band is the linear interpolation of the two
  band values, rounded down: no clipping takes place.
\<close>

lemma blend_band_unit:
  assumes "0 \<le> alpha" "alpha \<le> 1"
  shows "int (unat (blend_band alpha x y)) = \<lfloor>real (unat x) + alpha * (real (unat y) - real (unat x))\<rfloor>"
proof -
  define t where "t = real (unat x) + alpha * (real (unat y) - real (unat x))"
  have lo: "0 \<le> t" and hi: "t \<le> 255"
    unfolding t_def
    using convex_bounds [OF assms real_byte_ge [of x] real_byte_le [of x] real_byte_ge [of y] real_byte_le [of y]]
    by blast+
  have bb: "blend_band alpha x y = (if t \<le> 0 then 0 else if t \<ge> 255 then 255 else word_of_int \<lfloor>t\<rfloor>)"
    unfolding blend_band_def t_def Let_def ..
  show ?thesis
  proof (cases "t \<le> 0")
    case True
    with lo have "t = 0" by simp
    then show ?thesis unfolding t_def [symmetric] bb by simp
  next
    case False
    show ?thesis
    proof (cases "t \<ge> 255")
      case True
      with hi have "t = 255" by simp
      then show ?thesis unfolding t_def [symmetric] bb by simp
    next
      case F2: False
      have f0: "0 \<le> \<lfloor>t\<rfloor>" using lo by simp
      have f1: "\<lfloor>t\<rfloor> < 256" using hi by (simp add: floor_less_iff)
      have "int (unat (word_of_int \<lfloor>t\<rfloor> :: byte)) = \<lfloor>t\<rfloor>"
        using f0 f1 by (simp add: unat_eq_nat_uint uint_word_of_int)
      then show ?thesis unfolding t_def [symmetric] bb using False F2 by simp
    qed
  qed
qed

section \<open>The blend stage\<close>

text \<open>
  C7. For base and styled images of equal size, the blend stage with the Transition
  slider at 0 returns the base image, pixel for pixel, and with the slider at 100 the
  styled image.
\<close>

theorem blend_fraction_endpoints:
  assumes "width (baseline_image st) = width (original_image st)"
    and "height (baseline_image st) = height (original_image st)"
  shows "blended_image (st\<lparr>sliders := (sliders st)(''Transition'' := 0)\<rparr>) = Inr (baseline_image st)
       \<and> blended_image (st\<lparr>sliders := (sliders st)(''Transition'' := 100)\<rparr>) = Inr (original_image st)"
  using assms by (simp add: blended_image_def Image_blend_def blend_with_def)

theorem blend_fraction_endpoints_witness:
  "width (baseline_image ws1) = width (original_image ws1)
   \<and> height (baseline_image ws1) = height (original_image ws1)
   \<and> blended_image (ws1\<lparr>sliders := (sliders ws1)(''Transition'' := 0)\<rparr>)
       = Inr \<lparr>width = 1, height = 1, rows = [[(10, 20, 30)]]\<rparr>
   \<and> blended_image (ws1\<lparr>sliders := (sliders ws1)(''Transition'' := 100)\<rparr>)
       = Inr \<lparr>width = 1, height = 1, rows = [[(200, 100, 0)]]\<rparr>"
  using blend_fraction_endpoints [of ws1] by (simp add: ws1_def)

section \<open>Transition frames\<close>




section \<open>Resetting the controls on a style change\<close>

text \<open>
  C4. The claim is that a change of style resets every adjustment parameter to its
  documented default, the noise slider to 5. The reset loop sets the noise slider to 10,
  while \<open>initUI\<close> creates it with the default 5.
\<close>

theorem reset_noise_value:
  "sliders (reset_controls st) ''Noise'' = 10 \<and> initial_slider_value ''Noise'' = 5"
  by (simp add: reset_controls_def reset_slider_value_def initial_slider_value_def
      setValue_def slider_range_def)

text \<open>Every other slider is reset to the value it was created with, and every check box is cleared.\<close>

lemma reset_other_values:
  "sliders (reset_controls st) ''Transition'' = 100"
  "sliders (reset_controls st) ''Posterize'' = 1"
  "sliders (reset_controls st) ''Solarize'' = 0"
  "sliders (reset_controls st) ''Tint'' = 30"
  "sliders (reset_controls st) ''Paper Texture'' = 0"
  "list_all (\<lambda>k. sliders (reset_controls st) k = 50)
     [''Blur'', ''Exposure'', ''Gamma'', ''Brightness'', ''Contrast'', ''Saturation'', ''Hue'',
      ''Temperature'', ''Sharpness'']"
  "filters_enabled (reset_controls st) k = False"
  by (simp_all add: reset_controls_def reset_slider_value_def setValue_def slider_range_def)

lemma reset_differs_only_noise:
  "list_all (\<lambda>k. reset_slider_value k = initial_slider_value k) (remove1 ''Noise'' slider_labels)"
  by (simp add: slider_labels_def reset_slider_value_def initial_slider_value_def)

section \<open>Lookup tables on bytes\<close>

lemma clip8_in_range: "0 \<le> i \<Longrightarrow> i \<le> 255 \<Longrightarrow> clip8 i = word_of_int i"
  by (auto simp: clip8_def)

lemma uint_clip8: "0 \<le> i \<Longrightarrow> i \<le> 255 \<Longrightarrow> uint (clip8 i) = i"
  by (simp add: clip8_in_range uint_word_of_int)

lemma clip8_uint: "clip8 (uint (v::byte)) = v"
  using uint_byte_lt [of v] by (simp add: clip8_in_range)

lemma clip8_invert: "clip8 (255 - uint (v::byte)) = 255 - v"
  using uint_byte_lt [of v] by (simp add: clip8_in_range)

lemma uint_invert: "uint (255 - (v::byte)) = 255 - uint v"
  using uint_byte_lt [of v] by (simp add: uint_sub_if' uint_word_ariths word_le_def)

lemma py_round_of_int: "py_round (of_int k) = k"
  by (simp add: py_round_def)

lemma point_cong: "f (uint v) = g (uint v) \<Longrightarrow> point f v = point g v"
  by (simp add: point_def lut_band_def)

lemma map_image_id:
  assumes "\<And>p. f p = p"
  shows "map_image f im = im"
proof -
  have "map (map f) (rows im) = rows im"
    by (intro map_idI) (simp add: assms)
  then show ?thesis by (simp add: map_image_def)
qed

lemma map_image_cong: "(\<And>p. f p = g p) \<Longrightarrow> map_image f im = map_image g im"
  by (simp add: map_image_def cong: map_cong)

section \<open>Solarize\<close>

lemma solarize_band:
  "lut_band (solarize_lut threshold) v = (if uint v < threshold then v else 255 - v)"
  by (simp add: lut_band_def solarize_lut_def clip8_uint clip8_invert)

lemma invert_band: "lut_band (\<lambda>i. 255 - i) v = 255 - v"
  by (simp add: lut_band_def clip8_invert)

text \<open>
  C5, as stated, fails: with threshold 255 the band value 255 is at the threshold and is
  inverted to 0, so the image changes.
\<close>

theorem solarize_255_counterexample: "apply_solarize sol_img 255 \<noteq> sol_img"
  by (simp add: apply_solarize_def sol_img_def map_image_def map_bands_def lut_band_def
      solarize_lut_def clip8_def)

text \<open>
  C5, amended. The solarize filter inverts exactly the band values at or above the
  threshold (a byte \<open>v\<close> becomes \<open>255 - v\<close>); with threshold 0 it inverts the entire
  image, as the invert filter does; with threshold 255 it changes only the band value
  255, to 0, and leaves every other value as it is.
\<close>

theorem solarize_threshold:
  "apply_solarize img threshold
     = map_image (map_bands (\<lambda>v. if uint v < threshold then v else 255 - v)) img
   \<and> apply_solarize img 0 = apply_invert img
   \<and> apply_solarize img 0 = map_image (map_bands (\<lambda>v. 255 - v)) img
   \<and> apply_solarize img 255 = map_image (map_bands (\<lambda>v. if v = 255 then 0 else v)) img
   \<and> uint (255 - v) = 255 - uint (v::byte)"
proof -
  have a: "apply_solarize img t
     = map_image (map_bands (\<lambda>v. if uint v < t then v else 255 - v)) img" for t
    unfolding apply_solarize_def
    by (rule map_image_cong) (simp add: map_bands_def solarize_band split: prod.splits)
  have b: "apply_invert img = map_image (map_bands (\<lambda>v. 255 - v)) img"
    unfolding apply_invert_def
    by (rule map_image_cong) (simp add: map_bands_def invert_band split: prod.splits)
  have c: "apply_solarize img 0 = map_image (map_bands (\<lambda>v. 255 - v)) img"
    unfolding a by (rule map_image_cong) (simp add: map_bands_def split: prod.splits)
  have d: "(if uint v < 255 then v else 255 - v) = (if v = 255 then 0 else v)" for v :: byte
  proof (cases "v = 255")
    case True then show ?thesis by simp
  next
    case False
    have "uint v \<noteq> 255" using False by (metis word_of_int_uint word_of_int_numeral)
    with uint_byte_lt [of v] have "uint v < 255" by simp
    with False show ?thesis by simp
  qed
  have e: "apply_solarize img 255 = map_image (map_bands (\<lambda>v. if v = 255 then 0 else v)) img"
    unfolding a by (rule map_image_cong) (simp only: d)
  show ?thesis using a b c e uint_invert by simp
qed

theorem solarize_threshold_witness:
  "apply_solarize sol_img 128 = \<lparr>width = 1, height = 1, rows = [[(0, 0, 7)]]\<rparr>
   \<and> apply_solarize sol_img 0 = \<lparr>width = 1, height = 1, rows = [[(0, 255, 248)]]\<rparr>
   \<and> apply_solarize sol_img 255 = \<lparr>width = 1, height = 1, rows = [[(0, 0, 7)]]\<rparr>"
  using solarize_threshold [of sol_img 128 0] solarize_threshold [of sol_img 0 0]
  by (simp add: sol_img_def map_image_def map_bands_def)

section \<open>Temperature\<close>

lemma point_shift:
  assumes "0 \<le> d"
  shows "point (\<lambda>p. of_int (min 255 (p + d))) v = word_of_int (min 255 (uint v + d))"
proof -
  have "0 \<le> min 255 (uint v + d)" "min 255 (uint v + d) \<le> 255"
    using assms by simp_all
  then show ?thesis
    by (simp add: point_def lut_band_def py_round_of_int clip8_in_range)
qed


lemma temperature_stage_pixels:
  "temperature_stage slider img =
     map_image (\<lambda>(r, g, b).
       (if slider > 50 then word_of_int (min 255 (uint r + (slider - 50))) else r,
        g,
        if slider < 50 then word_of_int (min 255 (uint b - (slider - 50))) else b)) img"
proof -
  have up: "point (\<lambda>p. of_int (min 255 (p + (slider - 50)))) v
              = word_of_int (min 255 (uint v + (slider - 50)))" if "slider > 50" for v
    using point_shift [of "slider - 50" v] that by simp
  have down: "point (\<lambda>p. of_int (min 255 (p - (slider - 50)))) v
              = (if slider < 50 then word_of_int (min 255 (uint v - (slider - 50))) else v)"
    if "\<not> slider > 50" for v
  proof (cases "slider < 50")
    case True
    then show ?thesis using point_shift [of "50 - slider" v] by (simp add: algebra_simps)
  next
    case False
    with that have "slider = 50" by simp
    then show ?thesis using point_shift [of 0 v] uint_byte_lt [of v] by simp
  qed
  show ?thesis
    unfolding temperature_stage_def Let_def
    by (rule map_image_cong) (auto simp: up down split: prod.splits)
qed



section \<open>Gamma\<close>

lemma float_pow_pos:
  assumes "0 \<le> x" "0 < y"
  shows "float_pow x y = Inr (x powr y)"
  using assms by (simp add: float_pow_def)

lemma gamma_value_pos: "0 < max 0.1 (real_of_int slider / 50)"
  by (simp add: less_max_iff_disj)

lemma gamma_stage_table:
  "gamma_stage slider img =
       Inr (map_image (map_bands (point (\<lambda>p.
              255 * (real_of_int p / 255) powr (1 / max 0.1 (real_of_int slider / 50))))) img)"
proof -
  define gv where "gv = max 0.1 (real_of_int slider / 50)"
  have pos: "0 < gv" unfolding gv_def by (rule gamma_value_pos)
  have dv: "float_div 1 gv = Inr (1 / gv)" using pos by (simp add: float_div_def)
  have inv: "0 < 1 / gv" using pos by simp
  have "map (\<lambda>p. float_pow (real p / 255) (1 / gv)) [0..<256]
          = map (\<lambda>p. Inr ((real p / 255) powr (1 / gv))) [0..<256]"
    by (intro map_cong refl float_pow_pos inv) simp
  then have col: "collect (map (\<lambda>p. float_pow (real p / 255) (1 / gv)) [0..<256])
          = Inr (map (\<lambda>p. (real p / 255) powr (1 / gv)) [0..<256])"
    by (simp only: collect_all_Inr)
  have nth: "map (\<lambda>p. (real p / 255) powr (1 / gv)) [0..<256] ! unat v
          = (real (unat v) / 255) powr (1 / gv)" for v :: byte
    using unat_byte_lt [of v] by (simp del: upt_rec_numeral)
  have band: "point (\<lambda>p. 255 * map (\<lambda>p. (real p / 255) powr (1 / gv)) [0..<256] ! nat p) v
          = point (\<lambda>p. 255 * (real_of_int p / 255) powr (1 / gv)) v" for v
    by (rule point_cong) (simp add: nth)
  have "gamma_stage slider img =
       Inr (map_image (map_bands (point (\<lambda>p.
              255 * map (\<lambda>p. (real p / 255) powr (1 / gv)) [0..<256] ! nat p))) img)"
    by (simp only: gamma_stage_def gv_def [symmetric] Let_def dv sum.case col)
  also have "map_image (map_bands (point (\<lambda>p.
              255 * map (\<lambda>p. (real p / 255) powr (1 / gv)) [0..<256] ! nat p))) img
      = map_image (map_bands (point (\<lambda>p. 255 * (real_of_int p / 255) powr (1 / gv)))) img"
    by (rule map_image_cong) (simp only: map_bands_def band)
  finally show ?thesis unfolding gv_def .
qed

text \<open>
  C9. The gamma stage never divides by zero: the effective gamma is at least 0.1, its
  reciprocal is taken without error, and for every slider value (0 included) and every
  image the stage returns an image, the one of the power-law table.
\<close>

theorem gamma_never_divides_by_zero:
  "max 0.1 (real_of_int slider / 50) \<ge> 0.1
   \<and> float_div 1 (max 0.1 (real_of_int slider / 50)) = Inr (1 / max 0.1 (real_of_int slider / 50))
   \<and> gamma_stage slider img =
       Inr (map_image (map_bands (point (\<lambda>p.
              255 * (real_of_int p / 255) powr (1 / max 0.1 (real_of_int slider / 50))))) img)"
proof -
  have "float_div 1 (max 0.1 (real_of_int slider / 50)) = Inr (1 / max 0.1 (real_of_int slider / 50))"
    using gamma_value_pos [of slider] by (simp add: float_div_def)
  then show ?thesis using gamma_stage_table [of slider img] by simp
qed

theorem gamma_never_divides_by_zero_witness:
  "gamma_stage 0 gamma_img = Inr gamma_img"
proof -
  have "gamma_stage 0 gamma_img =
       Inr (map_image (map_bands (point (\<lambda>p. 255 * (real_of_int p / 255) powr 10))) gamma_img)"
    using gamma_never_divides_by_zero [of 0 gamma_img] by simp
  then show ?thesis
    by (simp add: gamma_img_def map_image_def map_bands_def point_def lut_band_def
        py_round_def clip8_def)
qed

section \<open>Frames\<close>

lemma px_map_upt:
  "x < w \<Longrightarrow> y < h \<Longrightarrow>
   px \<lparr>width = w', height = h', rows = map (\<lambda>y. map (\<lambda>x. f x y) [0..<w]) [0..<h]\<rparr> x y = f x y"
  by (simp add: px_def del: upt_rec_numeral)

lemma apply_basic_frame_eq:
  assumes "frame_color \<in> set [''Black'', ''White'', ''Gold'', ''Metallic'']"
  shows "apply_basic_frame img frame_color 20 (800, 800) =
     Inr \<lparr>width = 800, height = 800,
          rows = map (\<lambda>y. map (\<lambda>x.
              if 20 \<le> x \<and> x < 780 \<and> 20 \<le> y \<and> y < 780
              then (let sx = (int (width img) - 760) div 2 + (int x - 20);
                        sy = (int (height img) - 760) div 2 + (int y - 20)
                    in if 0 \<le> sx \<and> sx < int (width img) \<and> 0 \<le> sy \<and> sy < int (height img)
                       then px img (nat sx) (nat sy) else (0, 0, 0))
              else frame_rgb frame_color)
            [0..<800]) [0..<800]\<rparr>"
proof -
  define left where "left = (int (width img) - 760) div 2"
  define top where "top = (int (height img) - 760) div 2"
  define c where "c = frame_rgb frame_color"
  define cropped where "cropped = \<lparr>width = 760, height = 760,
      rows = map (\<lambda>y. map (\<lambda>x.
          let sx = left + int x; sy = top + int y
          in if 0 \<le> sx \<and> sx < int (width img) \<and> 0 \<le> sy \<and> sy < int (height img)
             then px img (nat sx) (nat sy) else (0, 0, 0))
        [0..<760]) [0..<760]\<rparr>"
  let ?name = "if frame_color = ''Black'' then ''black''
             else if frame_color = ''White'' then ''white''
             else if frame_color = ''Metallic'' then ''#C0C0C0''
             else if frame_color = ''Gold'' then ''#FFD700''
             else frame_color"
  have crop: "crop_with (0, 0, 0) img (left, top, left + 760, top + 760) = Inr cropped"
    by (simp add: crop_with_def cropped_def del: upt_rec_numeral)
  have new: "Image_new_color (800, 800) ?name = Inr (Image_new 800 800 c)"
    using assms by (auto simp: Image_new_color_def getrgb_def c_def frame_rgb_def)
  have pxc: "px cropped x y =
      (let sx = left + int x; sy = top + int y
       in if 0 \<le> sx \<and> sx < int (width img) \<and> 0 \<le> sy \<and> sy < int (height img)
          then px img (nat sx) (nat sy) else (0, 0, 0))" if "x < 760" "y < 760" for x y
    unfolding cropped_def using that by (simp add: px_map_upt del: upt_rec_numeral)
  have pxn: "px (Image_new 800 800 c) x y = c" if "x < 800" "y < 800" for x y
    using that by (simp add: px_def Image_new_def)
  have rows_eq: "map (\<lambda>y. map (\<lambda>x.
             let sx = int x - 20; sy = int y - 20
             in if 0 \<le> sx \<and> sx < int (width cropped) \<and> 0 \<le> sy \<and> sy < int (height cropped)
                then px cropped (nat sx) (nat sy) else px (Image_new 800 800 c) x y)
           [0..<800]) [0..<800]
     = map (\<lambda>y. map (\<lambda>x.
              if 20 \<le> x \<and> x < 780 \<and> 20 \<le> y \<and> y < 780
              then (let sx = left + (int x - 20); sy = top + (int y - 20)
                    in if 0 \<le> sx \<and> sx < int (width img) \<and> 0 \<le> sy \<and> sy < int (height img)
                       then px img (nat sx) (nat sy) else (0, 0, 0))
              else c)
            [0..<800]) [0..<800]"
  proof (intro map_cong refl)
    fix y x assume "y \<in> set [0..<800::nat]" "x \<in> set [0..<800::nat]"
    then have y: "y < 800" and x: "x < 800" by simp_all
    show "(let sx = int x - 20; sy = int y - 20
             in if 0 \<le> sx \<and> sx < int (width cropped) \<and> 0 \<le> sy \<and> sy < int (height cropped)
                then px cropped (nat sx) (nat sy) else px (Image_new 800 800 c) x y)
       = (if 20 \<le> x \<and> x < 780 \<and> 20 \<le> y \<and> y < 780
              then (let sx = left + (int x - 20); sy = top + (int y - 20)
                    in if 0 \<le> sx \<and> sx < int (width img) \<and> 0 \<le> sy \<and> sy < int (height img)
                       then px img (nat sx) (nat sy) else (0, 0, 0))
              else c)"
    proof (cases "20 \<le> x \<and> x < 780 \<and> 20 \<le> y \<and> y < 780")
      case True
      then have n: "nat (int x - 20) < 760" "nat (int y - 20) < 760" by linarith+
      have i: "int (nat (int x - 20)) = int x - 20" "int (nat (int y - 20)) = int y - 20"
        using True by linarith+
      have wh: "width cropped = 760" "height cropped = 760" by (simp_all add: cropped_def)
      show ?thesis using True by (simp add: Let_def wh pxc [OF n] i)
    next
      case False
      have wh: "width cropped = 760" "height cropped = 760" by (simp_all add: cropped_def)
      have neg: "\<not> (0 \<le> int x - 20 \<and> int x - 20 < int (width cropped)
                  \<and> 0 \<le> int y - 20 \<and> int y - 20 < int (height cropped))"
        unfolding wh using False by linarith
      show ?thesis
        unfolding Let_def if_not_P [OF neg] if_not_P [OF False] by (rule pxn [OF x y])
    qed
  qed
  have "apply_basic_frame img frame_color 20 (800, 800)
      = Inr (paste (Image_new 800 800 c) cropped (20, 20))"
    unfolding apply_basic_frame_def Let_def
    using crop new by (simp add: left_def top_def)
  also have "paste (Image_new 800 800 c) cropped (20, 20) =
     \<lparr>width = 800, height = 800,
          rows = map (\<lambda>y. map (\<lambda>x.
             let sx = int x - 20; sy = int y - 20
             in if 0 \<le> sx \<and> sx < int (width cropped) \<and> 0 \<le> sy \<and> sy < int (height cropped)
                then px cropped (nat sx) (nat sy) else px (Image_new 800 800 c) x y)
           [0..<800]) [0..<800]\<rparr>"
  proof -
    have wn: "width (Image_new 800 800 c) = 800" "height (Image_new 800 800 c) = 800"
      by (simp_all add: Image_new_def)
    show ?thesis by (simp only: paste_def prod.case wn)
  qed
  finally have fin: "apply_basic_frame img frame_color 20 (800, 800) =
     Inr \<lparr>width = 800, height = 800,
          rows = map (\<lambda>y. map (\<lambda>x.
             let sx = int x - 20; sy = int y - 20
             in if 0 \<le> sx \<and> sx < int (width cropped) \<and> 0 \<le> sy \<and> sy < int (height cropped)
                then px cropped (nat sx) (nat sy) else px (Image_new 800 800 c) x y)
           [0..<800]) [0..<800]\<rparr>" .
  show ?thesis unfolding fin unfolding rows_eq unfolding left_def top_def c_def by (rule refl)
qed

text \<open>
  C10. For every input image, also one smaller than the inner area of 760 by 760,
  applying a named frame completes without error and returns an image of 800 by 800. Its
  border of width 20 has the frame colour; inside, the pixel at \<open>(x, y)\<close> is the pixel
  of the input at the centred position when that position lies in the input, and black
  otherwise: the part of the inner area that the input does not cover is black, not of
  the frame colour.
\<close>

theorem apply_basic_frame_canvas:
  assumes "frame_color \<in> set [''Black'', ''White'', ''Gold'', ''Metallic'']"
  shows "\<exists>out. apply_basic_frame img frame_color 20 (800, 800) = Inr out
       \<and> width out = 800 \<and> height out = 800 \<and> wf_image out
       \<and> (\<forall>x < 800. \<forall>y < 800. px out x y =
            (if 20 \<le> x \<and> x < 780 \<and> 20 \<le> y \<and> y < 780
             then (let sx = (int (width img) - 760) div 2 + (int x - 20);
                       sy = (int (height img) - 760) div 2 + (int y - 20)
                   in if 0 \<le> sx \<and> sx < int (width img) \<and> 0 \<le> sy \<and> sy < int (height img)
                      then px img (nat sx) (nat sy) else (0, 0, 0))
             else frame_rgb frame_color))"
proof -
  let ?f = "\<lambda>x y. if 20 \<le> x \<and> x < 780 \<and> 20 \<le> y \<and> y < 780
             then (let sx = (int (width img) - 760) div 2 + (int x - 20);
                       sy = (int (height img) - 760) div 2 + (int y - 20)
                   in if 0 \<le> sx \<and> sx < int (width img) \<and> 0 \<le> sy \<and> sy < int (height img)
                      then px img (nat sx) (nat sy) else (0, 0, 0))
             else frame_rgb frame_color"
  let ?out = "\<lparr>width = 800, height = 800, rows = map (\<lambda>y. map (\<lambda>x. ?f x y) [0..<800]) [0..<800]\<rparr>"
  have eq: "apply_basic_frame img frame_color 20 (800, 800) = Inr ?out"
    using assms by (rule apply_basic_frame_eq)
  have wf: "wf_image ?out"
    by (simp add: wf_image_def list_all_iff del: upt_rec_numeral)
  have pxo: "\<forall>x < 800. \<forall>y < 800. px ?out x y = ?f x y"
    by (intro allI impI px_map_upt)
  show ?thesis
    apply (rule exI [of _ ?out])
    apply (intro conjI)
        apply (rule eq)
       apply simp
      apply simp
     apply (rule wf)
    apply (rule pxo)
    done
qed

theorem apply_basic_frame_canvas_witness:
  "''Gold'' \<in> set [''Black'', ''White'', ''Gold'', ''Metallic'']
   \<and> (\<exists>out. apply_basic_frame one_px ''Gold'' 20 (800, 800) = Inr out
         \<and> width out = 800 \<and> height out = 800
         \<and> px out 0 0 = (255, 215, 0) \<and> px out 20 20 = (0, 0, 0) \<and> px out 400 400 = (10, 20, 30)
         \<and> px out 401 400 = (0, 0, 0) \<and> px out 779 779 = (0, 0, 0) \<and> px out 780 779 = (255, 215, 0))"
proof -
  have g: "''Gold'' \<in> set [''Black'', ''White'', ''Gold'', ''Metallic'']" by simp
  from apply_basic_frame_canvas [OF g, of one_px] obtain out where
    o: "apply_basic_frame one_px ''Gold'' 20 (800, 800) = Inr out" "width out = 800" "height out = 800"
    and p: "\<And>x y. x < 800 \<Longrightarrow> y < 800 \<Longrightarrow> px out x y =
            (if 20 \<le> x \<and> x < 780 \<and> 20 \<le> y \<and> y < 780
             then (let sx = (int (width one_px) - 760) div 2 + (int x - 20);
                       sy = (int (height one_px) - 760) div 2 + (int y - 20)
                   in if 0 \<le> sx \<and> sx < int (width one_px) \<and> 0 \<le> sy \<and> sy < int (height one_px)
                      then px one_px (nat sx) (nat sy) else (0, 0, 0))
             else frame_rgb ''Gold'')"
    by blast
  have "px out 0 0 = (255, 215, 0)" using p [of 0 0] by (simp add: frame_rgb_def)
  moreover have "px out 20 20 = (0, 0, 0)" using p [of 20 20] by (simp add: one_px_def)
  moreover have "px out 400 400 = (10, 20, 30)" using p [of 400 400] by (simp add: one_px_def px_def)
  moreover have "px out 401 400 = (0, 0, 0)" using p [of 401 400] by (simp add: one_px_def)
  moreover have "px out 779 779 = (0, 0, 0)" using p [of 779 779] by (simp add: one_px_def)
  moreover have "px out 780 779 = (255, 215, 0)" using p [of 780 779] by (simp add: frame_rgb_def)
  ultimately show ?thesis using g o by blast
qed

section \<open>Before/after frames\<close>

lemma split_position_0: "split_position w 0 = 0"
  by (simp add: split_position_def)

lemma split_position_100: "split_position w 100 = int w"
  by (simp add: split_position_def)

lemma split_position_bounds:
  assumes "i \<le> 100"
  shows "0 \<le> split_position w i" and "split_position w i \<le> int w"
proof -
  have "0 \<le> real w * (real i / 100)" by simp
  then show "0 \<le> split_position w i" unfolding split_position_def by simp
  have "real i / 100 \<le> 1" using assms by simp
  then have "real w * (real i / 100) \<le> real w * 1" by (intro mult_left_mono) simp_all
  then have "\<lfloor>real w * (real i / 100)\<rfloor> \<le> \<lfloor>real w\<rfloor>" by (intro floor_mono) simp
  then show "split_position w i \<le> int w" unfolding split_position_def by simp
qed

text \<open>For exact real arithmetic the split position is the integer quotient.\<close>
lemma split_position_div: "split_position w i = int ((w * i) div 100)"
proof -
  have "real w * (real i / 100) = real (w * i) / real 100" by simp
  then show ?thesis unfolding split_position_def by (simp only: floor_divide_of_nat_eq)
qed

lemma image_rebuild:
  assumes "wf_image im"
  shows "\<lparr>width = width im, height = height im,
          rows = map (\<lambda>y. map (\<lambda>x. px im x y) [0..<width im]) [0..<height im]\<rparr> = im"
proof -
  from assms have len: "length (rows im) = height im"
    and rowlen: "\<And>r. r \<in> set (rows im) \<Longrightarrow> length r = width im"
    by (auto simp: wf_image_def list_all_iff)
  have "map (\<lambda>y. map (\<lambda>x. px im x y) [0..<width im]) [0..<height im] = rows im"
  proof (rule nth_equalityI)
    show "length (map (\<lambda>y. map (\<lambda>x. px im x y) [0..<width im]) [0..<height im]) = length (rows im)"
      by (simp add: len)
  next
    fix y assume "y < length (map (\<lambda>y. map (\<lambda>x. px im x y) [0..<width im]) [0..<height im])"
    then have y: "y < height im" by simp
    then have "rows im ! y \<in> set (rows im)" by (simp add: len)
    then have l: "length (rows im ! y) = width im" by (rule rowlen)
    have "map (\<lambda>x. px im x y) [0..<width im] = rows im ! y"
      by (rule nth_equalityI) (simp_all add: l px_def)
    then show "map (\<lambda>y. map (\<lambda>x. px im x y) [0..<width im]) [0..<height im] ! y = rows im ! y"
      using y by simp
  qed
  then show ?thesis by simp
qed

lemma before_after_frame_pixels:
  assumes "i \<le> 100" "width a = width b" "height a = height b"
  shows "before_after_frame a b i =
     Inr \<lparr>width = width b, height = height b,
          rows = map (\<lambda>y. map (\<lambda>x.
              if int x < split_position (width b) i then px b x y else px a x y)
            [0..<width b]) [0..<height b]\<rparr>"
proof -
  define sp where "sp = split_position (width b) i"
  have sp0: "0 \<le> sp" and spw: "sp \<le> int (width b)"
    unfolding sp_def using split_position_bounds [OF assms(1)] by simp_all
  define part where "part = \<lparr>width = nat (int (width b) - sp), height = height a,
      rows = map (\<lambda>y. map (\<lambda>x.
          let sx = sp + int x; sy = 0 + int y
          in if 0 \<le> sx \<and> sx < int (width a) \<and> 0 \<le> sy \<and> sy < int (height a)
             then px a (nat sx) (nat sy) else (0, 0, 0, 0))
        [0..<nat (int (width b) - sp)]) [0..<height a]\<rparr>"
  have crop: "crop_with (0, 0, 0, 0) a (sp, 0, int (width b), int (height a)) = Inr part"
    using spw by (simp add: crop_with_def part_def)
  have pxp: "px part x y = px a (nat (sp + int x)) y"
    if "x < nat (int (width b) - sp)" "y < height a" for x y
  proof -
    have "sp + int x < int (width a)" using that assms(2) by linarith
    then show ?thesis
      unfolding part_def using that sp0 by (simp add: px_def Let_def)
  qed
  have rows_eq: "map (\<lambda>y. map (\<lambda>x.
             let sx = int x - sp; sy = int y - 0
             in if 0 \<le> sx \<and> sx < int (width part) \<and> 0 \<le> sy \<and> sy < int (height part)
                then px part (nat sx) (nat sy) else px b x y)
           [0..<width b]) [0..<height b]
      = map (\<lambda>y. map (\<lambda>x. if int x < sp then px b x y else px a x y)
            [0..<width b]) [0..<height b]"
  proof (intro map_cong refl)
    fix y x assume "y \<in> set [0..<height b]" "x \<in> set [0..<width b]"
    then have y: "y < height b" and x: "x < width b" by simp_all
    have wh: "width part = nat (int (width b) - sp)" "height part = height a"
      by (simp_all add: part_def)
    show "(let sx = int x - sp; sy = int y - 0
             in if 0 \<le> sx \<and> sx < int (width part) \<and> 0 \<le> sy \<and> sy < int (height part)
                then px part (nat sx) (nat sy) else px b x y)
        = (if int x < sp then px b x y else px a x y)"
    proof (cases "int x < sp")
      case True
      then show ?thesis by (simp add: Let_def)
    next
      case False
      have n: "nat (int x - sp) < nat (int (width b) - sp)" using False x by linarith
      have ya: "y < height a" using y assms(3) by simp
      have c: "0 \<le> int x - sp \<and> int x - sp < int (width part) \<and> 0 \<le> int y - 0
                 \<and> int y - 0 < int (height part)"
        unfolding wh using False x ya spw by simp
      have e: "nat (sp + int (nat (int x - sp))) = x" using False by linarith
      have p: "px part (nat (int x - sp)) y = px a x y"
        using pxp [OF n ya] unfolding e .
      have y0: "nat (int y - 0) = y" by simp
      show ?thesis
        unfolding Let_def if_P [OF c] if_not_P [OF False] y0 by (rule p)
    qed
  qed
  have "before_after_frame a b i = Inr (paste b part (sp, 0))"
    unfolding before_after_frame_def Let_def sp_def [symmetric] using crop by simp
  also have "paste b part (sp, 0) = \<lparr>width = width b, height = height b,
      rows = map (\<lambda>y. map (\<lambda>x.
             let sx = int x - sp; sy = int y - 0
             in if 0 \<le> sx \<and> sx < int (width part) \<and> 0 \<le> sy \<and> sy < int (height part)
                then px part (nat sx) (nat sy) else px b x y)
           [0..<width b]) [0..<height b]\<rparr>"
    by (simp only: paste_def prod.case)
  finally show ?thesis unfolding rows_eq unfolding sp_def .
qed

text \<open>
  So, for well-formed images of equal size, frame 0 is the original image (the first
  input) and frame 100 the styled image (the second input).
\<close>

lemma before_after_frame_first:
  assumes "wf_image a" "width a = width b" "height a = height b"
  shows "before_after_frame a b 0 = Inr a"
proof -
  have "before_after_frame a b 0 =
     Inr \<lparr>width = width a, height = height a,
          rows = map (\<lambda>y. map (\<lambda>x. px a x y) [0..<width a]) [0..<height a]\<rparr>"
    using before_after_frame_pixels [of 0 a b] assms(2,3) by (simp add: split_position_0)
  then show ?thesis by (simp only: image_rebuild [OF assms(1)])
qed

lemma before_after_frame_last:
  assumes "wf_image b" "width a = width b" "height a = height b"
  shows "before_after_frame a b 100 = Inr b"
proof -
  have "before_after_frame a b 100 =
     Inr \<lparr>width = width b, height = height b,
          rows = map (\<lambda>y. map (\<lambda>x. px b x y) [0..<width b]) [0..<height b]\<rparr>"
    using before_after_frame_pixels [of 100 a b] assms(2,3)
    by (simp add: split_position_100 cong: map_cong)
  then show ?thesis by (simp only: image_rebuild [OF assms(1)])
qed

text \<open>
  C1. The claim is that frame \<open>i\<close> is image B (the styled image) with the region left
  of the split replaced by image A (the original), so that frame 0 is B and frame 100 is
  A. The code builds the opposite composite: the styled image is kept left of the split
  and the original is pasted from the split to the right edge. On two images of two
  pixels, frame 0 is A, frame 100 is B, and frame 50 has the pixel of B on the left and
  the pixel of A on the right.
\<close>

theorem before_after_frame_endpoints:
  "before_after_frame anim_a anim_b 0 = Inr anim_a
   \<and> before_after_frame anim_a anim_b 100 = Inr anim_b
   \<and> before_after_frame anim_a anim_b 50
        = Inr \<lparr>width = 2, height = 1, rows = [[(200, 100, 0, 255), (40, 50, 60, 255)]]\<rparr>
   \<and> before_after_frame_video anim_a anim_b 0 = Inr anim_a
   \<and> before_after_frame_video anim_a anim_b 100 = Inr anim_b
   \<and> anim_a \<noteq> anim_b"
  by (simp add: before_after_frame_def before_after_frame_video_def split_position_def
      crop_with_def paste_def px_def anim_a_def anim_b_def upt_rec)

section \<open>The editing sliders at 50\<close>

lemma Image_blend_1:
  "width d = width im \<Longrightarrow> height d = height im \<Longrightarrow> Image_blend d im 1 = Inr im"
  by (simp add: Image_blend_def blend_with_def)

lemma exposure_stage_50: "exposure_stage 50 img = Inr img"
  by (simp add: exposure_stage_def Brightness_enhance_def Image_blend_1 Image_new_def)

lemma brightness_stage_50: "brightness_stage 50 img = Inr img"
  by (simp add: brightness_stage_def Brightness_enhance_def Image_blend_1 Image_new_def)

lemma real_unsigned: "(unsigned (v::byte) :: real) = real_of_int (uint v)"
  by simp

lemma unsigned_real_ge: "0 \<le> (unsigned (v::byte) :: real)"
proof -
  have "real_of_int 0 \<le> real_of_int (uint v)"
    by (simp only: of_int_le_iff uint_nonnegative)
  then show ?thesis by simp
qed

lemma map_bands_id: "(\<And>v. f v = v) \<Longrightarrow> map_bands f p = p"
  by (cases p) (simp add: map_bands_def)

lemma unsigned_real_lt: "(unsigned (v::byte) :: real) < 256"
proof -
  have "real_of_int (uint v) < real_of_int 256"
    using uint_byte_lt [of v] by (simp only: of_int_less_iff)
  then show ?thesis by simp
qed

lemma point_identity:
  assumes "f (uint v) = real_of_int (uint v)"
  shows "point f v = v"
  unfolding point_def lut_band_def assms py_round_of_int by (rule clip8_uint)

lemma gamma_stage_50: "gamma_stage 50 img = Inr img"
proof -
  have band: "point (\<lambda>p. 255 * (real_of_int p / 255) powr 1) v = v" for v :: byte
    by (rule point_identity) (simp add: unsigned_real_ge)
  have "map_image (map_bands (point (\<lambda>p. 255 * (real_of_int p / 255) powr 1))) img = img"
    by (intro map_image_id map_bands_id band)
  then show ?thesis using gamma_stage_table [of 50 img] by simp
qed

lemma contrast_stage_50:
  assumes "concat (rows img) \<noteq> []"
  shows "contrast_stage 50 img = Inr img"
proof -
  have "concat (rows (convert_L img)) = map L24 (concat (rows img))"
    by (simp add: convert_L_def map_image_def map_concat)
  with assms have ne: "length (concat (rows (convert_L img))) \<noteq> 0" by simp
  then obtain m where m: "ImageStat_mean (convert_L img) = Inr m"
    by (simp add: ImageStat_mean_def Let_def)
  show ?thesis
    by (simp add: contrast_stage_def Contrast_enhance_def m Let_def Image_blend_1
        convert_RGB_def map_image_def Image_new_def)
qed

lemma saturation_stage_50: "saturation_stage 50 img = Inr img"
  by (simp add: saturation_stage_def Color_enhance_def Image_blend_1
      convert_RGB_def convert_L_def map_image_def)

lemma float_mod_small:
  assumes "0 \<le> x" "x < m"
  shows "float_mod x m = x"
proof -
  have "0 < m" using assms by simp
  then have "0 \<le> x / m" "x / m < 1" using assms by simp_all
  then have "\<lfloor>x / m\<rfloor> = 0" by (simp add: floor_eq_iff)
  then show ?thesis by (simp add: float_mod_def)
qed

lemma hue_stage_50: "hue_stage 50 img = map_image (\<lambda>p. hsv2rgb (rgb2hsv p)) img"
proof -
  have band: "point (\<lambda>p. float_mod (of_int p + real_of_int (50 - 50) * 3.6) 256) h = h" for h :: byte
  proof (rule point_identity)
    show "float_mod (real_of_int (uint h) + real_of_int (50 - 50) * 3.6) 256 = real_of_int (uint h)"
      using float_mod_small [OF unsigned_real_ge [of h] unsigned_real_lt [of h]] by simp
  qed
  show ?thesis
    unfolding hue_stage_def Let_def
    by (rule map_image_cong) (simp only: band split: prod.splits, simp)
qed

lemma temperature_stage_50: "temperature_stage 50 img = img"
  unfolding temperature_stage_pixels by (rule map_image_id) (simp split: prod.splits)

lemma sharpness_stage_50: "sharpness_stage 50 img = Sharpness_enhance img 6"
  by (simp add: sharpness_stage_def)

lemma sharpness_stage_0: "sharpness_stage 0 img = Inr img"
  by (simp add: sharpness_stage_def Sharpness_enhance_def Image_blend_1 filter_SMOOTH_def)

lemma rows_map_image_ne: "concat (rows (map_image f img)) \<noteq> [] \<longleftrightarrow> concat (rows img) \<noteq> []"
  by (simp add: map_image_def map_concat [symmetric])

lemma editing_neutral_chain:
  assumes "sl ''Exposure'' = 50" "sl ''Gamma'' = 50" "sl ''Brightness'' = 50"
    "sl ''Contrast'' = 50" "sl ''Saturation'' = 50" "sl ''Hue'' = 50" "sl ''Temperature'' = 50"
    and "concat (rows img) \<noteq> []"
  shows "editing sl img = sharpness_stage (sl ''Sharpness'') (map_image (\<lambda>p. hsv2rgb (rgb2hsv p)) img)"
  using assms
  by (simp add: editing_def bind_def exposure_stage_50 gamma_stage_50 brightness_stage_50
      contrast_stage_50 saturation_stage_50 hue_stage_50 temperature_stage_50)

text \<open>
  The conversion to HSV and back is exact on gray pixels; it is not exact on every
  colour, since the hue is stored in 8 bits.
\<close>

lemma hsv_gray: "hsv2rgb (rgb2hsv (v, v, v)) = (v, v, v)"
  by (simp add: rgb2hsv_def hsv2rgb_def)

lemma hsv_lossy: "hsv2rgb (rgb2hsv (255, 1, 0)) = (255, 0, 0)"
  by (simp add: rgb2hsv_def hsv2rgb_def Let_def clip8_def c_round_def frac_def)

lemma smooth_spot: "filter_SMOOTH spot = \<lparr>width = 3, height = 3,
           rows = [[(0, 0, 0), (0, 0, 0), (0, 0, 0)],
                   [(0, 0, 0), (38, 38, 38), (0, 0, 0)],
                   [(0, 0, 0), (0, 0, 0), (0, 0, 0)]]\<rparr>"
  by (simp add: filter_SMOOTH_def spot_def smooth_band_def px_def clip8f_def upt_rec)

lemma sharp_spot: "Sharpness_enhance spot 6 = Inr spot_sharp"
  unfolding Sharpness_enhance_def smooth_spot
  by (simp add: spot_def spot_sharp_def Image_blend_def blend_with_def blend_rgb_def blend_band_def)

lemma hsv_spot: "map_image (\<lambda>p. hsv2rgb (rgb2hsv p)) spot = spot"
  by (simp add: map_image_def spot_def hsv_gray)

text \<open>
  C3, as stated, fails: with every editing slider at 50 the sharpness factor is
  \<open>50 / 10 + 1 = 6\<close>, and a gray spot on black is sharpened to white.
\<close>

theorem editing_neutral_counterexample: "editing initial_slider_value spot \<noteq> Inr spot"
proof -
  have ne: "concat (rows spot) \<noteq> []" by (simp add: spot_def)
  have "editing initial_slider_value spot = sharpness_stage 50 spot"
    using editing_neutral_chain [of initial_slider_value spot, OF _ _ _ _ _ _ _ ne]
    by (simp add: initial_slider_value_def hsv_spot)
  then have "editing initial_slider_value spot = Inr spot_sharp"
    by (simp add: sharpness_stage_50 sharp_spot)
  then show ?thesis by (simp add: spot_def spot_sharp_def)
qed

text \<open>
  C3, amended. For every image with at least one pixel and every editing slider at 50,
  the exposure, gamma, brightness, contrast, saturation and temperature stages return
  their input pixel for pixel, and the hue stage shifts no hue: it is the conversion to
  HSV and back. The sharpness stage at 50 is the sharpness enhancement of factor 6, so
  the chain returns the converted image sharpened by factor 6; with the sharpness slider
  at 0 (factor 1) the chain returns the converted image itself.
\<close>

theorem editing_neutral:
  assumes "sl ''Exposure'' = 50" "sl ''Gamma'' = 50" "sl ''Brightness'' = 50"
    "sl ''Contrast'' = 50" "sl ''Saturation'' = 50" "sl ''Hue'' = 50" "sl ''Temperature'' = 50"
    and "concat (rows img) \<noteq> []"
  shows "exposure_stage 50 img = Inr img \<and> gamma_stage 50 img = Inr img
       \<and> brightness_stage 50 img = Inr img \<and> contrast_stage 50 img = Inr img
       \<and> saturation_stage 50 img = Inr img \<and> temperature_stage 50 img = img
       \<and> hue_stage 50 img = map_image (\<lambda>p. hsv2rgb (rgb2hsv p)) img
       \<and> (sl ''Sharpness'' = 50 \<longrightarrow>
            editing sl img = Sharpness_enhance (map_image (\<lambda>p. hsv2rgb (rgb2hsv p)) img) 6)
       \<and> (sl ''Sharpness'' = 0 \<longrightarrow>
            editing sl img = Inr (map_image (\<lambda>p. hsv2rgb (rgb2hsv p)) img))"
  using assms(8) editing_neutral_chain [OF assms]
  by (simp add: exposure_stage_50 gamma_stage_50 brightness_stage_50 contrast_stage_50
      saturation_stage_50 temperature_stage_50 hue_stage_50 sharpness_stage_50 sharpness_stage_0)

theorem editing_neutral_witness:
  "concat (rows spot) \<noteq> []
   \<and> editing initial_slider_value spot = Inr spot_sharp
   \<and> editing (initial_slider_value(''Sharpness'' := 0)) spot = Inr spot"
proof -
  have ne: "concat (rows spot) \<noteq> []" by (simp add: spot_def)
  have a: "editing initial_slider_value spot = Inr spot_sharp"
    using editing_neutral [of initial_slider_value spot, OF _ _ _ _ _ _ _ ne]
    by (simp add: initial_slider_value_def hsv_spot sharp_spot)
  have b: "editing (initial_slider_value(''Sharpness'' := 0)) spot = Inr spot"
    using editing_neutral [of "initial_slider_value(''Sharpness'' := 0)" spot, OF _ _ _ _ _ _ _ ne]
    by (simp add: initial_slider_value_def hsv_spot)
  show ?thesis using ne a b by simp
qed

section \<open>The pipeline and the random generator\<close>

text \<open>
  A run of the pipeline with only the noise filter enabled, on a uniformly gray image and
  with the sliders as created (noise 5 percent): when the generator returns the variate 0
  everywhere the image is unchanged, when it returns 1 everywhere every band rises by 12.
  The blur is never applied in this run, whatever function \<open>gauss\<close> is.
\<close>

lemma noise_flat_0: "apply_noise (flat 100) (1 / 20) (\<lambda>k. 0) = (flat 100, (\<lambda>k. 0))"
  by (simp add: apply_noise_def flat_def normal_def truncate_def px_def clip8_def upt_rec)

lemma noise_flat_1: "apply_noise (flat 100) (1 / 20) (\<lambda>k. 1) = (flat 112, (\<lambda>k. 1))"
  by (simp add: apply_noise_def flat_def normal_def truncate_def px_def clip8_def upt_rec)

lemma editing_flat_100: "editing initial_slider_value (flat 100) = Inr (flat 100)"
proof -
  have ne: "concat (rows (flat 100)) \<noteq> []" by (simp add: flat_def)
  have h: "map_image (\<lambda>p. hsv2rgb (rgb2hsv p)) (flat 100) = flat 100"
    by (simp add: map_image_def flat_def hsv_gray)
  have s: "filter_SMOOTH (flat 100) = flat 100"
    by (simp add: filter_SMOOTH_def flat_def smooth_band_def px_def clip8f_def upt_rec)
  have "Sharpness_enhance (flat 100) 6 = Inr (flat 100)"
    unfolding Sharpness_enhance_def s
    by (simp add: flat_def Image_blend_def blend_with_def blend_rgb_def blend_band_def)
  then show ?thesis
    using editing_neutral_chain [of initial_slider_value "flat 100", OF _ _ _ _ _ _ _ ne]
    by (simp add: initial_slider_value_def h sharpness_stage_50)
qed

lemma editing_flat_112: "editing initial_slider_value (flat 112) = Inr (flat 112)"
proof -
  have ne: "concat (rows (flat 112)) \<noteq> []" by (simp add: flat_def)
  have h: "map_image (\<lambda>p. hsv2rgb (rgb2hsv p)) (flat 112) = flat 112"
    by (simp add: map_image_def flat_def hsv_gray)
  have s: "filter_SMOOTH (flat 112) = flat 112"
    by (simp add: filter_SMOOTH_def flat_def smooth_band_def px_def clip8f_def upt_rec)
  have "Sharpness_enhance (flat 112) 6 = Inr (flat 112)"
    unfolding Sharpness_enhance_def s
    by (simp add: flat_def Image_blend_def blend_with_def blend_rgb_def blend_band_def)
  then show ?thesis
    using editing_neutral_chain [of initial_slider_value "flat 112", OF _ _ _ _ _ _ _ ne]
    by (simp add: initial_slider_value_def h sharpness_stage_50)
qed

lemma pipeline_noise_0:
  "apply_all_adjustments gauss ws_noise (\<lambda>k. 0) = Inr (flat 100, (\<lambda>k. 0))"
  by (simp add: apply_all_adjustments_def bind_def blended_image_def Image_blend_def blend_with_def
      filters_def paper_texture_def apply_frame_def ws_noise_def initial_slider_value_def
      noise_flat_0 editing_flat_100 Let_def)

lemma pipeline_noise_1:
  "apply_all_adjustments gauss ws_noise (\<lambda>k. 1) = Inr (flat 112, (\<lambda>k. 1))"
  by (simp add: apply_all_adjustments_def bind_def blended_image_def Image_blend_def blend_with_def
      filters_def paper_texture_def apply_frame_def ws_noise_def initial_slider_value_def
      noise_flat_1 editing_flat_112 Let_def)

text \<open>
  C2, as stated, fails: two runs on the same base image, styled image and parameter set,
  with the noise filter enabled at a positive intensity, return different images when the
  random generator is in different states.
\<close>

theorem pipeline_random_counterexample:
  "map_sum id fst (apply_all_adjustments (\<lambda>r im. im) ws_noise (\<lambda>k. 0))
     \<noteq> map_sum id fst (apply_all_adjustments (\<lambda>r im. im) ws_noise (\<lambda>k. 1))"
  by (simp add: pipeline_noise_0 pipeline_noise_1 flat_def)

lemma filters_rng:
  assumes "\<not> filters_enabled st ''Noise''"
  shows "filters gauss st img g = map_sum id (\<lambda>p. (fst p, g)) (filters gauss st img g')"
  unfolding filters_def Let_def bind_def using assms
  by (simp split: sum.splits split del: if_split)

lemma paper_rng:
  assumes "\<not> filters_enabled st ''Paper Texture'' \<or> sliders st ''Paper Texture'' \<le> 0"
  shows "paper_texture gauss st img g = Inr (img, g)"
  using assms by (auto simp: paper_texture_def Let_def)

text \<open>
  C2, amended. The output image is a function of the base image, the styled image, the
  parameter set and the state of the random generator. When the noise filter is disabled
  and the paper texture is disabled or at intensity 0, the output image does not depend
  on the state of the generator: any two runs return the same image (or fail alike).
\<close>

theorem pipeline_deterministic_without_random:
  assumes "\<not> filters_enabled st ''Noise''"
    and "\<not> filters_enabled st ''Paper Texture'' \<or> sliders st ''Paper Texture'' \<le> 0"
  shows "map_sum id fst (apply_all_adjustments gauss st g)
       = map_sum id fst (apply_all_adjustments gauss st g')"
proof (cases "blended_image st")
  case (Inl e)
  then show ?thesis by (simp add: apply_all_adjustments_def bind_def)
next
  case a: (Inr a)
  have f: "filters gauss st a g = map_sum id (\<lambda>p. (fst p, g)) (filters gauss st a g')"
    using assms(1) by (rule filters_rng)
  show ?thesis
  proof (cases "filters gauss st a g'")
    case (Inl e)
    then have "filters gauss st a g = Inl e" using f by simp
    with Inl a show ?thesis by (simp add: apply_all_adjustments_def bind_def)
  next
    case (Inr p)
    then have g': "filters gauss st a g' = Inr (fst p, snd p)" by simp
    have g: "filters gauss st a g = Inr (fst p, g)" using f Inr by simp
    have run: "apply_all_adjustments gauss st G =
        (case editing (sliders st) (fst p) of
           Inl e \<Rightarrow> Inl e
         | Inr a2 \<Rightarrow> (case apply_frame st a2 of Inl e \<Rightarrow> Inl e | Inr a4 \<Rightarrow> Inr (a4, G')))"
      if "filters gauss st a G = Inr (fst p, G')" for G G'
      by (simp add: apply_all_adjustments_def bind_def a that paper_rng [OF assms(2)]
          split: sum.splits)
    show ?thesis
      unfolding run [OF g] run [OF g'] by (simp split: sum.splits)
  qed
qed

theorem pipeline_deterministic_without_random_witness:
  "\<not> filters_enabled ws1 ''Noise''
   \<and> map_sum id fst (apply_all_adjustments (\<lambda>r im. im) ws1 (\<lambda>k. 0))
       = map_sum id fst (apply_all_adjustments (\<lambda>r im. im) ws1 (\<lambda>k. 1))"
proof -
  have n: "\<not> filters_enabled ws1 ''Noise''" by (simp add: ws1_def)
  have p: "\<not> filters_enabled ws1 ''Paper Texture'' \<or> sliders ws1 ''Paper Texture'' \<le> 0"
    by (simp add: ws1_def)
  show ?thesis
    using n pipeline_deterministic_without_random [OF n p, of "\<lambda>r im. im" "\<lambda>k. 0" "\<lambda>k. 1"]
    by simp
qed

end
